theory Spec2Isabelle
  imports Main "HOL-Library.Sublist"
begin

unbundle bit_operations_syntax

section \<open>ZHA binary sensors: a shallow embedding of binary_sensor.py\<close>

subsection \<open>Python values and errors\<close>

text \<open>
  The raw attribute values the module handles: \<open>parse\<close> is annotated \<open>bool | int\<close>,
  \<open>cluster.get\<close> yields \<open>None\<close> when nothing is cached, and device models are
  \<open>str\<close> or \<open>None\<close>. Python integers are unbounded, so they are \<open>int\<close>.
\<close>

datatype pyval = PNone | PBool bool | PInt int | PStr string

datatype error = TypeError | AttributeError | IndexError

text \<open>\<open>bool(v)\<close>: \<open>None\<close>, \<open>False\<close>, \<open>0\<close> and the empty string are false.\<close>

fun py_bool :: "pyval \<Rightarrow> bool" where
  "py_bool PNone = False"
| "py_bool (PBool b) = b"
| "py_bool (PInt n) = (n \<noteq> 0)"
| "py_bool (PStr s) = (s \<noteq> [])"

text \<open>
  \<open>v & n\<close> for an integer \<open>n\<close>: defined on \<open>int\<close> and on \<open>bool\<close> (a subclass of
  \<open>int\<close>, \<open>True\<close> being 1), a \<open>TypeError\<close> on \<open>None\<close> and on \<open>str\<close>. Python's
  \<open>&\<close> on negative integers is two's complement on infinitely many bits, as
  \<open>AND\<close> on \<open>int\<close> is.
\<close>

fun py_and_int :: "pyval \<Rightarrow> int \<Rightarrow> error + pyval" where
  "py_and_int (PInt a) n = Inr (PInt (a AND n))"
| "py_and_int (PBool b) n = Inr (PInt ((if b then 1 else 0) AND n))"
| "py_and_int PNone n = Inl TypeError"
| "py_and_int (PStr s) n = Inl TypeError"

text \<open>\<open>isinstance(v, str)\<close>.\<close>

fun isinstance_str :: "pyval \<Rightarrow> bool" where
  "isinstance_str (PStr s) = True"
| "isinstance_str v = False"

text \<open>
  \<open>s.find(sub)\<close> on strings: the lowest index at which \<open>sub\<close> occurs in \<open>s\<close>,
  \<open>-1\<close> when it does not occur. \<open>find_from s sub i\<close> searches the suffix \<open>s\<close>
  that starts at index \<open>i\<close> of the whole string.
\<close>

fun find_from :: "string \<Rightarrow> string \<Rightarrow> nat \<Rightarrow> int" where
  "find_from [] sub i = (if sub = [] then int i else - 1)"
| "find_from (c # cs) sub i =
     (if prefix sub (c # cs) then int i else find_from cs sub (Suc i))"

definition str_find :: "string \<Rightarrow> string \<Rightarrow> int" where
  "str_find s sub = find_from s sub 0"

text \<open>\<open>v.find(sub)\<close> on any value: only \<open>str\<close> has the method.\<close>

fun py_find :: "pyval \<Rightarrow> string \<Rightarrow> error + int" where
  "py_find (PStr s) sub = Inr (str_find s sub)"
| "py_find v sub = Inl AttributeError"

subsection \<open>Device classes, entity categories and the zone-type table\<close>

datatype BinarySensorDeviceClass =
  MOVING | OCCUPANCY | OPENING | MOTION | SMOKE | MOISTURE | GAS | VIBRATION
  | LOCK | PROBLEM | PLUG | WINDOW

datatype EntityCategory = CONFIG | DIAGNOSTIC

text \<open>\<open>CLASS_MAPPING\<close>, in the order of the source.\<close>

definition CLASS_MAPPING :: "(int \<times> BinarySensorDeviceClass) list" where
  "CLASS_MAPPING =
     [(0x000D, MOTION),
      (0x0015, OPENING),
      (0x0028, SMOKE),
      (0x002A, MOISTURE),
      (0x002B, GAS),
      (0x002D, VIBRATION)]"

text \<open>
  \<open>CLASS_MAPPING.get(key)\<close>: a dictionary lookup with default \<open>None\<close>. Every
  \<open>pyval\<close> is hashable; \<open>True\<close> and \<open>False\<close> hash and compare as 1 and 0; \<open>None\<close>
  and strings equal no integer key.
\<close>

fun CLASS_MAPPING_get :: "pyval \<Rightarrow> BinarySensorDeviceClass option" where
  "CLASS_MAPPING_get (PInt n) = map_of CLASS_MAPPING n"
| "CLASS_MAPPING_get (PBool b) = map_of CLASS_MAPPING (if b then 1 else 0)"
| "CLASS_MAPPING_get PNone = None"
| "CLASS_MAPPING_get (PStr s) = None"

subsection \<open>The sensor classes\<close>

datatype sensor_class =
  BinarySensor
  | Accelerometer
  | Occupancy
  | Opening
  | BinaryInput
  | Motion
  | IASZone
  | FrostLock
  | ReplaceFilter
  | AqaraPetFeederErrorDetected
  | XiaomiPlugConsumerConnected
  | AqaraThermostatWindowOpen
  | AqaraThermostatValveAlarm
  | AqaraThermostatCalibrated
  | AqaraThermostatExternalSensor
  | AqaraLinkageAlarmState

text \<open>The class attribute \<open>SENSOR_ATTR: str | None\<close>.\<close>

fun SENSOR_ATTR :: "sensor_class \<Rightarrow> pyval" where
  "SENSOR_ATTR BinarySensor = PNone"
| "SENSOR_ATTR Accelerometer = PStr ''acceleration''"
| "SENSOR_ATTR Occupancy = PStr ''occupancy''"
| "SENSOR_ATTR Opening = PStr ''on_off''"
| "SENSOR_ATTR BinaryInput = PStr ''present_value''"
| "SENSOR_ATTR Motion = PStr ''on_off''"
| "SENSOR_ATTR IASZone = PStr ''zone_status''"
| "SENSOR_ATTR FrostLock = PStr ''frost_lock''"
| "SENSOR_ATTR ReplaceFilter = PStr ''replace_filter''"
| "SENSOR_ATTR AqaraPetFeederErrorDetected = PStr ''error_detected''"
| "SENSOR_ATTR XiaomiPlugConsumerConnected = PStr ''consumer_connected''"
| "SENSOR_ATTR AqaraThermostatWindowOpen = PStr ''window_open''"
| "SENSOR_ATTR AqaraThermostatValveAlarm = PStr ''valve_alarm''"
| "SENSOR_ATTR AqaraThermostatCalibrated = PStr ''calibrated''"
| "SENSOR_ATTR AqaraThermostatExternalSensor = PStr ''sensor''"
| "SENSOR_ATTR AqaraLinkageAlarmState = PStr ''linkage_alarm_state''"

text \<open>
  The class attribute \<open>_attr_device_class\<close>; a class that does not set it inherits
  the entity base class's \<open>None\<close>.
\<close>

fun attr_device_class :: "sensor_class \<Rightarrow> BinarySensorDeviceClass option" where
  "attr_device_class Accelerometer = Some MOVING"
| "attr_device_class Occupancy = Some OCCUPANCY"
| "attr_device_class Opening = Some OPENING"
| "attr_device_class Motion = Some MOTION"
| "attr_device_class FrostLock = Some LOCK"
| "attr_device_class ReplaceFilter = Some PROBLEM"
| "attr_device_class AqaraPetFeederErrorDetected = Some PROBLEM"
| "attr_device_class XiaomiPlugConsumerConnected = Some PLUG"
| "attr_device_class AqaraThermostatWindowOpen = Some WINDOW"
| "attr_device_class AqaraThermostatValveAlarm = Some PROBLEM"
| "attr_device_class AqaraLinkageAlarmState = Some SMOKE"
| "attr_device_class c = None"

text \<open>The class attribute \<open>_attr_entity_category\<close>, \<open>None\<close> unless a class sets it.\<close>

fun attr_entity_category :: "sensor_class \<Rightarrow> EntityCategory option" where
  "attr_entity_category AqaraThermostatCalibrated = Some DIAGNOSTIC"
| "attr_entity_category AqaraThermostatExternalSensor = Some DIAGNOSTIC"
| "attr_entity_category c = None"

subsection \<open>Parsers\<close>

text \<open>\<open>BinarySensor.parse\<close>: \<open>return bool(value)\<close>.\<close>

definition BinarySensor_parse :: "pyval \<Rightarrow> bool" where
  "BinarySensor_parse v = py_bool v"

text \<open>\<open>IASZone.parse\<close>: \<open>return BinarySensor.parse(value & 3)\<close>.\<close>

definition IASZone_parse :: "pyval \<Rightarrow> error + bool" where
  "IASZone_parse v =
     (case py_and_int v 3 of
        Inl e \<Rightarrow> Inl e
      | Inr w \<Rightarrow> Inr (BinarySensor_parse w))"

text \<open>\<open>self.parse\<close>: \<open>IASZone\<close> overrides the static method, every other class inherits it.\<close>

fun parse :: "sensor_class \<Rightarrow> pyval \<Rightarrow> error + bool" where
  "parse IASZone v = IASZone_parse v"
| "parse c v = Inr (BinarySensor_parse v)"

subsection \<open>Channels, sensors and the host platform\<close>

text \<open>
  A channel wraps a cluster of the device library. The cluster is used through
  \<open>cluster.get(attribute)\<close> only, which is taken as a parameter here: the cached
  value of the attribute, \<open>None\<close> when none is cached.
\<close>

record cluster_channel =
  ch_name :: string
  cluster_get :: "pyval \<Rightarrow> pyval"

text \<open>
  A sensor instance: its class, the \<open>unique_id\<close> passed to the constructor and the
  field \<open>_channel\<close>. There is no other field: the sensor keeps no pushed value.
\<close>

record sensor =
  sensor_cls :: sensor_class
  unique_id :: string
  channel :: cluster_channel

text \<open>
  \<open>BinarySensor.__init__\<close>: after the base class's constructor,
  \<open>self._channel = channels[0]\<close>, an \<open>IndexError\<close> on an empty list.
\<close>

definition init :: "sensor_class \<Rightarrow> string \<Rightarrow> cluster_channel list \<Rightarrow> error + sensor" where
  "init cls uid channels =
     (case channels of
        [] \<Rightarrow> Inl IndexError
      | c # cs \<Rightarrow> Inr \<lparr>sensor_cls = cls, unique_id = uid, channel = c\<rparr>)"

text \<open>The property \<open>is_on\<close>.\<close>

definition is_on :: "sensor \<Rightarrow> error + bool" where
  "is_on s =
     (let raw_state = cluster_get (channel s) (SENSOR_ATTR (sensor_cls s))
      in if raw_state = PNone then Inr False
         else parse (sensor_cls s) raw_state)"

text \<open>
  The property \<open>device_class\<close>: \<open>IASZone\<close> overrides it with a lookup of the cached
  \<open>zone_type\<close>; every other class reports its \<open>_attr_device_class\<close>.
\<close>

definition device_class :: "sensor \<Rightarrow> BinarySensorDeviceClass option" where
  "device_class s =
     (if sensor_cls s = IASZone
      then CLASS_MAPPING_get (cluster_get (channel s) (PStr ''zone_type''))
      else attr_device_class (sensor_cls s))"

text \<open>
  Modelled from the spec: \<open>notifyStateChanged(entityId)\<close>, the host platform's
  \<open>async_write_ha_state\<close> (homeassistant/helpers/entity.py, not among the sources).
  The host is the log of the state-changed notifications it received, oldest first.
\<close>

type_synonym hass = "string list"

definition async_write_ha_state :: "sensor \<Rightarrow> hass \<Rightarrow> hass" where
  "async_write_ha_state s h = h @ [unique_id s]"

text \<open>
  \<open>async_set_state(self, attr_id, attr_name, value)\<close>: its body is
  \<open>self.async_write_ha_state()\<close>. The sensor is returned as it was.
\<close>

definition async_set_state :: "sensor \<Rightarrow> pyval \<Rightarrow> pyval \<Rightarrow> pyval \<Rightarrow> hass \<Rightarrow> sensor \<times> hass" where
  "async_set_state s attr_id attr_name val h = (s, async_write_ha_state s h)"

subsection \<open>Match rules and the registrations of the module\<close>

text \<open>
  The three decorators of the module, each a partial application of a registry
  method to the binary-sensor platform.
\<close>

datatype match_strategy = STRICT_MATCH | MULTI_MATCH | CONFIG_DIAGNOSTIC_MATCH

text \<open>
  Channel names are either constants imported from \<open>core.const\<close> or string
  literals.
\<close>

datatype channel_name =
  CHANNEL_ACCELEROMETER
  | CHANNEL_BINARY_INPUT
  | CHANNEL_OCCUPANCY
  | CHANNEL_ON_OFF
  | CHANNEL_ZONE
  | Literal string

text \<open>A \<open>models\<close> argument is a set of model names or a predicate on the model.\<close>

datatype models_filter =
  ModelSet "string list"
  | ModelPredicate "pyval \<Rightarrow> error + bool"

text \<open>
  The \<open>models\<close> predicate of the IKEA rule on \<open>Motion\<close>:
  \<open>lambda model: isinstance(model, str) and model is not None and model.find("motion") != -1\<close>.
  \<open>and\<close> evaluates its right operand only when the left one is true.
\<close>

definition Motion_models :: "pyval \<Rightarrow> error + bool" where
  "Motion_models model =
     (if \<not> isinstance_str model then Inr False
      else if \<not> (model \<noteq> PNone) then Inr False
      else (case py_find model ''motion'' of
              Inl e \<Rightarrow> Inl e
            | Inr i \<Rightarrow> Inr (i \<noteq> - 1)))"

record registration =
  strategy :: match_strategy
  channel_names :: channel_name
  manufacturers :: "string list option"
  models :: "models_filter option"
  entity_class :: sensor_class

text \<open>
  The decorated classes in the order in which their decorators run: classes top to
  bottom, and the two decorators of \<open>Motion\<close> from the inner one outwards.
\<close>

definition registrations :: "registration list" where
  "registrations =
     [\<lparr>strategy = MULTI_MATCH, channel_names = CHANNEL_ACCELEROMETER,
        manufacturers = None, models = None, entity_class = Accelerometer\<rparr>,
      \<lparr>strategy = MULTI_MATCH, channel_names = CHANNEL_OCCUPANCY,
        manufacturers = None, models = None, entity_class = Occupancy\<rparr>,
      \<lparr>strategy = STRICT_MATCH, channel_names = CHANNEL_ON_OFF,
        manufacturers = None, models = None, entity_class = Opening\<rparr>,
      \<lparr>strategy = MULTI_MATCH, channel_names = CHANNEL_BINARY_INPUT,
        manufacturers = None, models = None, entity_class = BinaryInput\<rparr>,
      \<lparr>strategy = STRICT_MATCH, channel_names = CHANNEL_ON_OFF,
        manufacturers = Some [''Philips''],
        models = Some (ModelSet [''SML001'', ''SML002'']), entity_class = Motion\<rparr>,
      \<lparr>strategy = STRICT_MATCH, channel_names = CHANNEL_ON_OFF,
        manufacturers = Some [''IKEA of Sweden''],
        models = Some (ModelPredicate Motion_models), entity_class = Motion\<rparr>,
      \<lparr>strategy = MULTI_MATCH, channel_names = CHANNEL_ZONE,
        manufacturers = None, models = None, entity_class = IASZone\<rparr>,
      \<lparr>strategy = MULTI_MATCH, channel_names = Literal ''tuya_manufacturer'',
        manufacturers = Some [''_TZE200_htnnfasr''], models = None,
        entity_class = FrostLock\<rparr>,
      \<lparr>strategy = MULTI_MATCH, channel_names = Literal ''ikea_airpurifier'',
        manufacturers = None, models = None, entity_class = ReplaceFilter\<rparr>,
      \<lparr>strategy = MULTI_MATCH, channel_names = Literal ''opple_cluster'',
        manufacturers = None, models = Some (ModelSet [''aqara.feeder.acn001'']),
        entity_class = AqaraPetFeederErrorDetected\<rparr>,
      \<lparr>strategy = MULTI_MATCH, channel_names = Literal ''opple_cluster'',
        manufacturers = None,
        models = Some (ModelSet [''lumi.plug.mmeu01'', ''lumi.plug.maeu01'']),
        entity_class = XiaomiPlugConsumerConnected\<rparr>,
      \<lparr>strategy = MULTI_MATCH, channel_names = Literal ''opple_cluster'',
        manufacturers = None, models = Some (ModelSet [''lumi.airrtc.agl001'']),
        entity_class = AqaraThermostatWindowOpen\<rparr>,
      \<lparr>strategy = MULTI_MATCH, channel_names = Literal ''opple_cluster'',
        manufacturers = None, models = Some (ModelSet [''lumi.airrtc.agl001'']),
        entity_class = AqaraThermostatValveAlarm\<rparr>,
      \<lparr>strategy = CONFIG_DIAGNOSTIC_MATCH, channel_names = Literal ''opple_cluster'',
        manufacturers = None, models = Some (ModelSet [''lumi.airrtc.agl001'']),
        entity_class = AqaraThermostatCalibrated\<rparr>,
      \<lparr>strategy = CONFIG_DIAGNOSTIC_MATCH, channel_names = Literal ''opple_cluster'',
        manufacturers = None, models = Some (ModelSet [''lumi.airrtc.agl001'']),
        entity_class = AqaraThermostatExternalSensor\<rparr>,
      \<lparr>strategy = MULTI_MATCH, channel_names = Literal ''opple_cluster'',
        manufacturers = None, models = Some (ModelSet [''lumi.sensor_smoke.acn03'']),
        entity_class = AqaraLinkageAlarmState\<rparr>]"

subsection \<open>Example sensors\<close>

text \<open>
  A cluster whose \<open>get\<close> answers from an association list of cached attributes, and
  \<open>None\<close> for an attribute that has no entry.
\<close>

definition cluster_of :: "(pyval \<times> pyval) list \<Rightarrow> pyval \<Rightarrow> pyval" where
  "cluster_of cache key = (case map_of cache key of None \<Rightarrow> PNone | Some v \<Rightarrow> v)"

text \<open>An occupancy sensor on a cluster that has not cached any attribute yet.\<close>

definition occupancy_sensor :: sensor where
  "occupancy_sensor =
     \<lparr>sensor_cls = Occupancy, unique_id = ''00:11:22:33-1-1030'',
      channel = \<lparr>ch_name = ''occupancy'', cluster_get = cluster_of []\<rparr>\<rparr>"

text \<open>
  An IAS zone sensor whose cluster has cached zone status \<open>0b101\<close> and zone type
  \<open>0x0015\<close>.
\<close>

definition zone_sensor :: sensor where
  "zone_sensor =
     \<lparr>sensor_cls = IASZone, unique_id = ''00:11:22:33-1-1280'',
      channel = \<lparr>ch_name = ''ias_zone'',
        cluster_get = cluster_of
          [(PStr ''zone_status'', PInt 5), (PStr ''zone_type'', PInt 0x0015)]\<rparr>\<rparr>"

section \<open>Properties\<close>

subsection \<open>Auxiliary facts on the two low bits\<close>

lemma and3_mod: "(v::int) AND 3 = v mod 4"
proof -
  have "v AND 3 = take_bit 2 v"
    by (simp add: take_bit_eq_mask mask_eq_exp_minus_1)
  also have "\<dots> = v mod 4"
    by (simp add: take_bit_eq_mod)
  finally show ?thesis .
qed

lemma and3_bits: "((v::int) AND 3 \<noteq> 0) = (bit v 0 \<or> bit v 1)"
proof -
  have "bit v 0 = odd v"
    by (simp add: bit_0)
  moreover have "bit v 1 = odd (v div 2)"
    by (simp add: bit_iff_odd)
  moreover have "(v mod 4 \<noteq> 0) = (odd v \<or> odd (v div 2))"
    by presburger
  ultimately show ?thesis
    by (simp add: and3_mod)
qed

lemma Motion_models_example:
  "Motion_models (PStr ''TRADFRI motion sensor'') = Inr True
   \<and> Motion_models (PStr ''TRADFRI bulb'') = Inr False"
  by code_simp

subsection \<open>Updates for another attribute\<close>

text \<open>
  C1, as stated, fails: the occupancy sensor reads the attribute \<open>occupancy\<close>, and a
  call of \<open>async_set_state\<close> for the attribute \<open>on_off\<close> still sends a state-changed
  notification to the host, because the handler never looks at the attribute name.
\<close>

theorem async_set_state_other_attribute_notifies:
  "\<not> (PStr ''on_off'' \<noteq> SENSOR_ATTR (sensor_cls occupancy_sensor) \<longrightarrow>
      snd (async_set_state occupancy_sensor (PInt 0) (PStr ''on_off'') (PBool True) []) = [])"
  by (simp add: occupancy_sensor_def async_set_state_def async_write_ha_state_def)

text \<open>
  C1, amended: a call of \<open>async_set_state\<close> whose attribute name differs from
  \<open>SENSOR_ATTR\<close> leaves \<open>is_on\<close> unchanged and sends exactly one state-changed
  notification to the host.
\<close>

theorem async_set_state_other_attribute:
  "attr_name \<noteq> SENSOR_ATTR (sensor_cls s) \<Longrightarrow>
     is_on (fst (async_set_state s attr_id attr_name val h)) = is_on s
     \<and> snd (async_set_state s attr_id attr_name val h) = h @ [unique_id s]"
  by (simp add: async_set_state_def async_write_ha_state_def)

theorem async_set_state_other_attribute_witness:
  "PStr ''on_off'' \<noteq> SENSOR_ATTR (sensor_cls occupancy_sensor)
   \<and> is_on (fst (async_set_state occupancy_sensor (PInt 0) (PStr ''on_off'') (PBool True) []))
       = Inr False
   \<and> snd (async_set_state occupancy_sensor (PInt 0) (PStr ''on_off'') (PBool True) [])
       = [''00:11:22:33-1-1030'']"
  using async_set_state_other_attribute
    [of "PStr ''on_off''" occupancy_sensor "PInt 0" "PBool True" "[]"]
  by (simp add: occupancy_sensor_def is_on_def cluster_of_def)

subsection \<open>The state query\<close>

text \<open>
  C2: when the cluster has no cached value for the sensor's attribute (\<open>get\<close> yields
  \<open>None\<close>), \<open>is_on\<close> returns \<open>False\<close> and does not raise; otherwise it returns what
  the class's parser makes of the cached raw value.
\<close>

theorem is_on_absent_or_parsed:
  "(cluster_get (channel s) (SENSOR_ATTR (sensor_cls s)) = PNone \<longrightarrow> is_on s = Inr False)
   \<and> (cluster_get (channel s) (SENSOR_ATTR (sensor_cls s)) \<noteq> PNone \<longrightarrow>
        is_on s = parse (sensor_cls s) (cluster_get (channel s) (SENSOR_ATTR (sensor_cls s))))"
  by (simp add: is_on_def Let_def)

theorem is_on_absent_or_parsed_witness:
  "cluster_get (channel occupancy_sensor) (SENSOR_ATTR (sensor_cls occupancy_sensor)) = PNone
   \<and> is_on occupancy_sensor = Inr False
   \<and> cluster_get (channel zone_sensor) (SENSOR_ATTR (sensor_cls zone_sensor)) = PInt 5
   \<and> PInt 5 \<noteq> PNone
   \<and> is_on zone_sensor = parse IASZone (PInt 5)
   \<and> is_on zone_sensor = Inr True"
  using is_on_absent_or_parsed [of occupancy_sensor] is_on_absent_or_parsed [of zone_sensor]
  by (simp add: occupancy_sensor_def zone_sensor_def cluster_of_def IASZone_parse_def
      BinarySensor_parse_def)

subsection \<open>The alarm bitmask parser\<close>

text \<open>
  C3: on every integer \<open>v\<close>, \<open>IASZone.parse\<close> is the default parser applied to
  \<open>v & 0b11\<close>; the result is true exactly when \<open>v & 0b11\<close> is not zero, that is when
  bit 0 or bit 1 of \<open>v\<close> is set, so no other bit matters; \<open>0b100\<close> parses to false
  and \<open>0b01\<close> to true.
\<close>

theorem IASZone_parse_low_two_bits:
  "IASZone_parse (PInt v) = Inr (BinarySensor_parse (PInt (v AND 3)))
   \<and> parse IASZone (PInt v) = parse BinarySensor (PInt (v AND 3))
   \<and> IASZone_parse (PInt v) = Inr (v AND 3 \<noteq> 0)
   \<and> IASZone_parse (PInt v) = Inr (bit v 0 \<or> bit v 1)
   \<and> IASZone_parse (PInt 4) = Inr False
   \<and> IASZone_parse (PInt 1) = Inr True"
proof -
  have masked: "IASZone_parse (PInt w) = Inr (BinarySensor_parse (PInt (w AND 3)))" for w
    by (simp add: IASZone_parse_def)
  have bits: "BinarySensor_parse (PInt (v AND 3)) = (bit v 0 \<or> bit v 1)"
    by (simp add: BinarySensor_parse_def and3_bits)
  have nonzero: "BinarySensor_parse (PInt (v AND 3)) = (v AND 3 \<noteq> 0)"
    by (simp add: BinarySensor_parse_def)
  have examples: "IASZone_parse (PInt 4) = Inr False" "IASZone_parse (PInt 1) = Inr True"
    by (simp_all add: masked BinarySensor_parse_def)
  show ?thesis
    using masked [of v] bits nonzero examples by simp
qed

subsection \<open>The zone-type lookup\<close>

text \<open>
  C4: the lookup in \<open>CLASS_MAPPING\<close> maps \<open>0x000D\<close> to motion, \<open>0x0015\<close> to opening,
  \<open>0x0028\<close> to smoke, \<open>0x002A\<close> to moisture, \<open>0x002B\<close> to gas and \<open>0x002D\<close> to
  vibration; every other code, and an absent zone type, gives \<open>None\<close>. The lookup has
  no error result, and the device class of an IAS zone sensor is this lookup of the
  cached \<open>zone_type\<close>.
\<close>

theorem CLASS_MAPPING_get_table:
  "CLASS_MAPPING_get (PInt 0x000D) = Some MOTION
   \<and> CLASS_MAPPING_get (PInt 0x0015) = Some OPENING
   \<and> CLASS_MAPPING_get (PInt 0x0028) = Some SMOKE
   \<and> CLASS_MAPPING_get (PInt 0x002A) = Some MOISTURE
   \<and> CLASS_MAPPING_get (PInt 0x002B) = Some GAS
   \<and> CLASS_MAPPING_get (PInt 0x002D) = Some VIBRATION
   \<and> (z \<notin> {0x000D, 0x0015, 0x0028, 0x002A, 0x002B, 0x002D} \<longrightarrow>
        CLASS_MAPPING_get (PInt z) = None)
   \<and> CLASS_MAPPING_get PNone = None
   \<and> (sensor_cls s = IASZone \<longrightarrow>
        device_class s = CLASS_MAPPING_get (cluster_get (channel s) (PStr ''zone_type'')))"
  by (simp add: CLASS_MAPPING_def device_class_def)

theorem CLASS_MAPPING_get_table_witness:
  "(0x9999::int) \<notin> {0x000D, 0x0015, 0x0028, 0x002A, 0x002B, 0x002D}
   \<and> CLASS_MAPPING_get (PInt 0x9999) = None
   \<and> sensor_cls zone_sensor = IASZone
   \<and> device_class zone_sensor = Some OPENING"
  using CLASS_MAPPING_get_table [of "0x9999" zone_sensor]
  by (simp add: zone_sensor_def cluster_of_def)

subsection \<open>Updates for the watched attribute\<close>

text \<open>
  C5: a call of \<open>async_set_state\<close> for the sensor's own attribute sends exactly one
  state-changed notification to the host, whatever the value and whatever the
  cluster has cached, hence also when the boolean state is the same as before.
\<close>

theorem async_set_state_notifies_once:
  "attr_name = SENSOR_ATTR (sensor_cls s) \<Longrightarrow>
     snd (async_set_state s attr_id attr_name val h) = h @ [unique_id s]
     \<and> length (snd (async_set_state s attr_id attr_name val h)) = Suc (length h)
     \<and> is_on (fst (async_set_state s attr_id attr_name val h)) = is_on s"
  by (simp add: async_set_state_def async_write_ha_state_def)

theorem async_set_state_notifies_once_witness:
  "PStr ''occupancy'' = SENSOR_ATTR (sensor_cls occupancy_sensor)
   \<and> snd (async_set_state occupancy_sensor (PStr ''occupancy_id'') (PStr ''occupancy'')
            (PInt 1) [])
       = [unique_id occupancy_sensor]
   \<and> length (snd (async_set_state occupancy_sensor (PStr ''occupancy_id'')
            (PStr ''occupancy'') (PInt 1) [])) = 1"
  using async_set_state_notifies_once
    [of "PStr ''occupancy''" occupancy_sensor "PStr ''occupancy_id''" "PInt 1" "[]"]
  by (simp add: occupancy_sensor_def)

subsection \<open>The default parser\<close>

text \<open>
  C6: on every raw value the default parser is the truthiness \<open>bool(v)\<close>: false on
  \<open>None\<close>, \<open>False\<close>, \<open>0\<close> and the empty string, true on everything else; applied to
  its own boolean result it returns that result again.
\<close>

theorem BinarySensor_parse_truthiness:
  "BinarySensor_parse v = py_bool v
   \<and> BinarySensor_parse (PBool (BinarySensor_parse v)) = BinarySensor_parse v
   \<and> BinarySensor_parse v
       = (v \<noteq> PNone \<and> v \<noteq> PBool False \<and> v \<noteq> PInt 0 \<and> v \<noteq> PStr [])"
  by (cases v) (simp_all add: BinarySensor_parse_def)

subsection \<open>The model predicate of the IKEA motion rule\<close>

text \<open>
  C7: on every model value, \<open>None\<close> and other non-strings included, the \<open>models\<close>
  predicate of the IKEA rule on \<open>Motion\<close> returns a boolean and raises nothing, and
  it returns false whenever the model is not a string.
\<close>

theorem Motion_models_total:
  "(\<exists>b. Motion_models model = Inr b)
   \<and> (\<not> isinstance_str model \<longrightarrow> Motion_models model = Inr False)"
  by (cases model) (auto simp: Motion_models_def)

theorem Motion_models_total_witness:
  "\<not> isinstance_str PNone \<and> Motion_models PNone = Inr False
   \<and> \<not> isinstance_str (PInt 7) \<and> Motion_models (PInt 7) = Inr False"
  using Motion_models_total [of PNone] Motion_models_total [of "PInt 7"]
  by simp

subsection \<open>Diagnostic registrations\<close>

text \<open>
  C8: every class that the module registers with \<open>CONFIG_DIAGNOSTIC_MATCH\<close> has the
  entity category \<open>DIAGNOSTIC\<close>.
\<close>

theorem config_diagnostic_is_diagnostic:
  "\<forall>r \<in> set registrations.
     strategy r = CONFIG_DIAGNOSTIC_MATCH \<longrightarrow>
       attr_entity_category (entity_class r) = Some DIAGNOSTIC"
  by (simp add: registrations_def)

theorem config_diagnostic_is_diagnostic_witness:
  "registrations ! 13 \<in> set registrations
   \<and> strategy (registrations ! 13) = CONFIG_DIAGNOSTIC_MATCH
   \<and> entity_class (registrations ! 13) = AqaraThermostatCalibrated
   \<and> attr_entity_category (entity_class (registrations ! 13)) = Some DIAGNOSTIC"
  using config_diagnostic_is_diagnostic [THEN bspec, of "registrations ! 13"]
  by (simp add: registrations_def)

subsection \<open>Construction\<close>

text \<open>
  C9: the constructor needs a non-empty list of channels, an empty one ends in an
  \<open>IndexError\<close>; on a non-empty list it succeeds and binds the first channel as the
  sensor's channel, however many follow.
\<close>

theorem init_binds_first_channel:
  "init cls uid [] = Inl IndexError
   \<and> (init cls uid channels = Inl IndexError) = (channels = [])
   \<and> (\<exists>s. init cls uid (c # cs) = Inr s \<and> channel s = c)"
  by (cases channels) (simp_all add: init_def)

subsection \<open>Independence of the arguments\<close>

text \<open>
  C10: \<open>async_set_state\<close> does the same for any two triples of arguments: the same
  sensor and the same host log result, and \<open>is_on\<close> afterwards is the same; the
  sensor itself is unchanged, as it stores no pushed value.
\<close>

theorem async_set_state_ignores_arguments:
  "async_set_state s attr_id1 attr_name1 val1 h = async_set_state s attr_id2 attr_name2 val2 h
   \<and> is_on (fst (async_set_state s attr_id1 attr_name1 val1 h))
       = is_on (fst (async_set_state s attr_id2 attr_name2 val2 h))
   \<and> fst (async_set_state s attr_id1 attr_name1 val1 h) = s"
  by (simp add: async_set_state_def)

end
